theory Spec2Isabelle
  imports Main
begin

section \<open>JSON values as the handlers read them\<close>

text \<open>
  The tutor's client and server exchange JSON. The TypeScript casts
  (\<^verbatim>\<open>as EvaluationResponse\<close>) check nothing at run time, so a response is
  whatever JSON the language model or the route produced. A JavaScript number
  is kept as an integer: the handlers only test numbers for truthiness.
  An object is an association list in which the first binding of a key is the
  one a property read returns.
\<close>

datatype json =
    JNull
  | JBool bool
  | JNum int
  | JStr string
  | JArr "json list"
  | JObj "(string \<times> json) list"

text \<open>
  A property read \<^verbatim>\<open>v.k\<close>: \<open>None\<close> is JavaScript's \<^verbatim>\<open>undefined\<close>.
  On \<^verbatim>\<open>null\<close> the read throws a TypeError; each caller below treats
  \<open>JNull\<close> before it reads a field.
\<close>

fun field :: "json \<Rightarrow> string \<Rightarrow> json option" where
  "field (JObj kvs) k = map_of kvs k"
| "field _ k = None"

text \<open>JavaScript truthiness of a value that may be \<^verbatim>\<open>undefined\<close>.\<close>

fun truthy :: "json option \<Rightarrow> bool" where
  "truthy None = False"
| "truthy (Some JNull) = False"
| "truthy (Some (JBool b)) = b"
| "truthy (Some (JNum n)) = (n \<noteq> 0)"
| "truthy (Some (JStr s)) = (s \<noteq> [])"
| "truthy (Some (JArr xs)) = True"
| "truthy (Some (JObj kvs)) = True"

text \<open>\<^verbatim>\<open>a || b\<close> on values that may be undefined.\<close>

definition js_or :: "json option \<Rightarrow> json option \<Rightarrow> json option" where
  "js_or a b = (if truthy a then a else b)"

text \<open>\<^verbatim>\<open>String.prototype.trim\<close>, on the ASCII white space characters.\<close>

definition is_space :: "char \<Rightarrow> bool" where
  "is_space c \<longleftrightarrow> c \<in> {CHR '' '', CHR 0x09, CHR 0x0A, CHR 0x0B, CHR 0x0C, CHR 0x0D}"

definition trim :: "string \<Rightarrow> string" where
  "trim s = rev (dropWhile is_space (rev (dropWhile is_space s)))"

section \<open>The evaluation gateway: \<^verbatim>\<open>lib/llm/evaluate.ts\<close>\<close>

text \<open>
  What one call of \<^verbatim>\<open>openai.chat.completions.create\<close> can give back: the
  promise rejects, the completion has no \<^verbatim>\<open>choices[0].message\<close> (the read
  throws), or there is a message whose \<^verbatim>\<open>content\<close> is a string or
  \<^verbatim>\<open>null\<close>. The prompt text does not influence control flow and is not
  represented.
\<close>

datatype completion = CallRejected | NoChoices | Content "string option"

text \<open>
  The language model is an oracle: \<open>gpt n\<close> is the outcome of the \<open>n\<close>-th
  call made so far, and every operation that calls the model returns the
  advanced call count. \<^verbatim>\<open>JSON.parse\<close> is a parameter; \<open>None\<close> is its
  SyntaxError.
\<close>

type_synonym parser = "string \<Rightarrow> json option"

type_synonym llm = "nat \<Rightarrow> completion"

text \<open>The body of the \<^verbatim>\<open>try\<close> block of \<^verbatim>\<open>evaluateAnswer\<close>; \<open>Inl\<close> is a throw.\<close>

definition evaluate_try :: "parser \<Rightarrow> completion \<Rightarrow> string + json" where
  "evaluate_try parse c =
     (case c of
        CallRejected \<Rightarrow> Inl ''OpenAI request failed''
      | NoChoices \<Rightarrow> Inl ''TypeError''
      | Content None \<Rightarrow> Inl ''Empty response from OpenAI''
      | Content (Some responseText) \<Rightarrow>
          if responseText = [] then Inl ''Empty response from OpenAI''
          else (case parse responseText of
                  None \<Rightarrow> Inl ''SyntaxError''
                | Some JNull \<Rightarrow> Inl ''TypeError''
                | Some evaluation \<Rightarrow>
                    if \<not> truthy (field evaluation ''response_type'')
                       \<or> \<not> truthy (field evaluation ''tutor_message'')
                       \<or> \<not> truthy (field evaluation ''badge_type'')
                    then Inl ''Invalid evaluation response structure''
                    else Inr evaluation))"

definition evaluate_fallback :: json where
  "evaluate_fallback = JObj
     [(''response_type'', JStr ''needs_hint''),
      (''tutor_message'', JStr (''I'' @ [CHR 0x27] @ ''m having trouble understanding your answer. Could you explain your thinking step by step?'')),
      (''badge_type'', JStr ''hint_given''),
      (''show_solution_button'', JBool False)]"

definition evaluateAnswer :: "parser \<Rightarrow> llm \<Rightarrow> nat \<Rightarrow> json \<times> nat" where
  "evaluateAnswer parse gpt n =
     (case evaluate_try parse (gpt n) of
        Inl err \<Rightarrow> (evaluate_fallback, Suc n)
      | Inr evaluation \<Rightarrow> (evaluation, Suc n))"

text \<open>Two situations used below: a model that cannot be reached, and text that never parses.\<close>

definition model_down :: llm where
  "model_down n = CallRejected"

definition parse_nothing :: parser where
  "parse_nothing t = None"

text \<open>
  \<^verbatim>\<open>getSolutionExplanation\<close>: one call; a rejected call gives the second
  fixed string, an absent or empty content the first.
\<close>

definition getSolutionExplanation :: "llm \<Rightarrow> nat \<Rightarrow> string \<times> nat" where
  "getSolutionExplanation gpt n =
     (case gpt n of
        Content (Some t) \<Rightarrow>
          (if t = [] then ''Solution explanation unavailable.'' else t, Suc n)
      | Content None \<Rightarrow> (''Solution explanation unavailable.'', Suc n)
      | _ \<Rightarrow> (''Unable to generate solution explanation at this time.'', Suc n))"

section \<open>The chat component: \<^verbatim>\<open>components/TutorChat.tsx\<close>\<close>

text \<open>
  A chat message. The \<^verbatim>\<open>id\<close> and \<^verbatim>\<open>timestamp\<close> fields are readings of
  the clock, never read back by a handler, and are left out. The text of a
  tutor message is whatever the response held under \<^verbatim>\<open>tutor_message\<close>, so
  it may be undefined; \<open>msg_badge = None\<close> is a message without a badge.
\<close>

datatype role = Student | Tutor

record ChatMessage =
  msg_role :: role
  msg_text :: "json option"
  msg_badge :: "json option"

text \<open>The component's state: one \<^verbatim>\<open>useState\<close> cell per field.\<close>

record chat =
  messages :: "ChatMessage list"
  input :: string
  isLoading :: bool
  hintsUsed :: nat
  showSolutionButton :: bool

definition chat_init :: chat where
  "chat_init = \<lparr>messages = [], input = [], isLoading = False, hintsUsed = 0,
     showSolutionButton = False\<rparr>"

text \<open>
  The callbacks the page can pass down, by the name of the page handler. A
  handler of the chat returns the callbacks it has scheduled with
  \<^verbatim>\<open>setTimeout(..., 1500)\<close>, in the order of scheduling, which is the order
  in which timers of equal delay fire.
\<close>

datatype callback =
    HandleOriginalCorrectAnswer
  | HandleMasteryCorrectAnswer
  | HandleMasteryFailed

record props =
  problemId :: "json option"
  isMasteryCheckProp :: bool
  onCorrectAnswer :: "callback option"
  onMasteryFailed :: "callback option"

text \<open>The body of a POST to \<^verbatim>\<open>/api/evaluate\<close>, as the two handlers build it.\<close>

record evaluate_request =
  problem_id :: "json option"
  student_answer :: string
  conversation_history :: "(role \<times> json option) list"
  hints_used :: nat
  request_solution :: bool

text \<open>
  What \<^verbatim>\<open>await fetch(...)\<close> followed by \<^verbatim>\<open>response.json()\<close> can give:
  the fetch rejects, or there is a response with its \<^verbatim>\<open>ok\<close> flag and a
  body that parses (\<open>Some\<close>) or makes \<^verbatim>\<open>response.json()\<close> throw (\<open>None\<close>).
\<close>

datatype 'b fetch_result = FetchRejected | Response bool "'b option"

text \<open>
  \<^verbatim>\<open>handleSubmit\<close> up to its \<^verbatim>\<open>await fetch\<close>: the guard, the student
  message, and the request sent (\<open>None\<close> when the guard returns early).
\<close>

definition handleSubmit_start :: "props \<Rightarrow> chat \<Rightarrow> chat \<times> evaluate_request option" where
  "handleSubmit_start p s =
     (if trim (input s) = [] \<or> isLoading s then (s, None)
      else
        (s\<lparr>messages := messages s @
             [\<lparr>msg_role = Student, msg_text = Some (JStr (trim (input s))), msg_badge = None\<rparr>],
           input := [],
           isLoading := True\<rparr>,
         Some \<lparr>problem_id = problemId p,
               student_answer = trim (input s),
               conversation_history = map (\<lambda>m. (msg_role m, msg_text m)) (messages s),
               hints_used = hintsUsed s,
               request_solution = False\<rparr>))"

text \<open>The \<^verbatim>\<open>catch\<close> block of \<^verbatim>\<open>handleSubmit\<close>, followed by its \<^verbatim>\<open>finally\<close>.\<close>

definition submit_catch :: "chat \<Rightarrow> chat" where
  "submit_catch s =
     s\<lparr>messages := messages s @
          [\<lparr>msg_role = Tutor,
            msg_text = Some (JStr (''Sorry, I had trouble understanding that. Could you try again?'')),
            msg_badge = None\<rparr>],
       isLoading := False\<rparr>"

text \<open>
  The rest of the \<^verbatim>\<open>try\<close> block once \<^verbatim>\<open>result\<close> is there and is not
  \<^verbatim>\<open>null\<close>, then the \<^verbatim>\<open>finally\<close>.
\<close>

definition submit_result :: "props \<Rightarrow> chat \<Rightarrow> json \<Rightarrow> chat \<times> callback list" where
  "submit_result p s result =
     (let s1 = s\<lparr>messages := messages s @
                  [\<lparr>msg_role = Tutor, msg_text = field result ''tutor_message'',
                    msg_badge = field result ''badge_type''\<rparr>]\<rparr>;
          s2 = (if field result ''badge_type'' = Some (JStr ''hint_given'')
                then s1\<lparr>hintsUsed := hintsUsed s1 + 1\<rparr> else s1);
          s3 = (if truthy (field result ''show_solution_button'')
                then s2\<lparr>showSolutionButton := True\<rparr> else s2);
          failed = (if truthy (field result ''show_solution_button'') \<and> isMasteryCheckProp p
                    then (case onMasteryFailed p of Some cb \<Rightarrow> [cb] | None \<Rightarrow> [])
                    else []);
          correct = (if field result ''response_type'' = Some (JStr ''correct_final'')
                     then (case onCorrectAnswer p of Some cb \<Rightarrow> [cb] | None \<Rightarrow> [])
                     else [])
      in (s3\<lparr>isLoading := False\<rparr>, failed @ correct))"

text \<open>
  The \<^verbatim>\<open>result\<close> the \<^verbatim>\<open>try\<close> block of \<^verbatim>\<open>handleSubmit\<close> goes on with, if
  any. A rejected fetch, a response that is not \<^verbatim>\<open>ok\<close>, a body that is not
  JSON and a \<^verbatim>\<open>null\<close> body (the read of \<^verbatim>\<open>result.tutor_message\<close> throws)
  all end in the \<^verbatim>\<open>catch\<close> block.
\<close>

fun evaluated :: "json fetch_result \<Rightarrow> json option" where
  "evaluated (Response True (Some result)) = (if result = JNull then None else Some result)"
| "evaluated _ = None"

text \<open>\<^verbatim>\<open>handleSubmit\<close> from the point where the fetch settles.\<close>

definition handleSubmit_finish :: "props \<Rightarrow> chat \<Rightarrow> json fetch_result \<Rightarrow> chat \<times> callback list" where
  "handleSubmit_finish p s r =
     (case evaluated r of
        Some result \<Rightarrow> submit_result p s result
      | None \<Rightarrow> (submit_catch s, []))"

text \<open>A whole submission: the answer is sent and the fetch settles with \<open>r\<close>.\<close>

definition handleSubmit :: "props \<Rightarrow> chat \<Rightarrow> json fetch_result \<Rightarrow> chat \<times> callback list" where
  "handleSubmit p s r =
     (case handleSubmit_start p s of
        (s', None) \<Rightarrow> (s', [])
      | (s', Some req) \<Rightarrow> handleSubmit_finish p s' r)"

text \<open>
  \<^verbatim>\<open>handleShowSolution\<close>, in the same two halves. It has no guard of its
  own and does not look at \<^verbatim>\<open>response.ok\<close>; its \<^verbatim>\<open>catch\<close> block only
  logs.
\<close>

definition handleShowSolution_start :: "props \<Rightarrow> chat \<Rightarrow> chat \<times> evaluate_request" where
  "handleShowSolution_start p s =
     (s\<lparr>isLoading := True\<rparr>,
      \<lparr>problem_id = problemId p,
       student_answer = ''show solution'',
       conversation_history = map (\<lambda>m. (msg_role m, msg_text m)) (messages s),
       hints_used = hintsUsed s,
       request_solution = True\<rparr>)"

definition handleShowSolution_finish :: "chat \<Rightarrow> json fetch_result \<Rightarrow> chat \<times> callback list" where
  "handleShowSolution_finish s r =
     (case r of
        Response ok (Some result) \<Rightarrow>
          (if result = JNull then (s\<lparr>isLoading := False\<rparr>, [])
           else
             (s\<lparr>messages := messages s @
                  [\<lparr>msg_role = Tutor,
                    msg_text = js_or (field result ''explanation'') (field result ''tutor_message''),
                    msg_badge = None\<rparr>],
                showSolutionButton := False,
                isLoading := False\<rparr>, []))
      | _ \<Rightarrow> (s\<lparr>isLoading := False\<rparr>, []))"

definition handleShowSolution :: "props \<Rightarrow> chat \<Rightarrow> json fetch_result \<Rightarrow> chat \<times> callback list" where
  "handleShowSolution p s r = handleShowSolution_finish (fst (handleShowSolution_start p s)) r"

section \<open>The evaluation route: \<^verbatim>\<open>app/api/evaluate/route.ts\<close>\<close>

text \<open>The JSON the route sends when \<^verbatim>\<open>request_solution\<close> is set.\<close>

definition solution_response :: "string \<Rightarrow> json" where
  "solution_response explanation = JObj
     [(''response_type'', JStr ''correct_final''),
      (''tutor_message'', JStr (''Here'' @ [CHR 0x27] @ ''s how to solve this problem:'')),
      (''badge_type'', JStr ''hint_given''),
      (''show_solution_button'', JBool False),
      (''explanation'', JStr explanation)]"

definition error_response :: "string \<Rightarrow> json" where
  "error_response msg = JObj [(''error'', JStr msg)]"

text \<open>
  \<^verbatim>\<open>POST\<close>: the request body (\<open>None\<close> when \<^verbatim>\<open>request.json()\<close> throws),
  the problem table \<open>db\<close> behind \<^verbatim>\<open>getProblemById\<close>, and the model. The
  session is read only for the learner's age, which goes into the prompt. The
  result is the HTTP status with the body, and the advanced call count.
\<close>

definition evaluate_POST ::
  "parser \<Rightarrow> (json \<Rightarrow> json option) \<Rightarrow> llm \<Rightarrow> nat \<Rightarrow> evaluate_request option
     \<Rightarrow> (nat \<times> json) \<times> nat" where
  "evaluate_POST parse db gpt n body =
     (case body of
        None \<Rightarrow> ((500, error_response ''Internal server error''), n)
      | Some b \<Rightarrow>
          (case problem_id b of
             None \<Rightarrow>
               ((400, error_response ''Missing required fields: problem_id, student_answer''), n)
           | Some pid \<Rightarrow>
               if \<not> truthy (Some pid) \<or> student_answer b = []
               then ((400, error_response ''Missing required fields: problem_id, student_answer''), n)
               else (case db pid of
                       None \<Rightarrow> ((404, error_response ''Problem not found''), n)
                     | Some problem \<Rightarrow>
                         if request_solution b
                         then (let (explanation, n') = getSolutionExplanation gpt n
                               in ((200, solution_response explanation), n'))
                         else (let (evaluation, n') = evaluateAnswer parse gpt n
                               in ((200, evaluation), n')))))"

text \<open>How the browser's \<^verbatim>\<open>fetch\<close> sees such a reply.\<close>

definition as_fetch :: "nat \<times> json \<Rightarrow> json fetch_result" where
  "as_fetch r = Response (200 \<le> fst r \<and> fst r < 300) (Some (snd r))"

section \<open>The page: \<^verbatim>\<open>app/page.tsx\<close>\<close>

datatype celebration = mastery_passed | mastery_failed

text \<open>
  The page's state. A problem is the JSON object that came from the problem
  route or from the generator; \<open>JNull\<close> is \<^verbatim>\<open>null\<close>.
\<close>

record page =
  currentProblem :: json
  originalProblem :: json
  isMasteryCheck :: bool
  showMasteryCheckModal :: bool
  showCelebrationModal :: bool
  celebrationType :: celebration
  isGeneratingMastery :: bool

definition page_init :: page where
  "page_init = \<lparr>currentProblem = JNull, originalProblem = JNull, isMasteryCheck = False,
     showMasteryCheckModal = False, showCelebrationModal = False,
     celebrationType = mastery_passed, isGeneratingMastery = False\<rparr>"

definition handleProblemSelected :: "page \<Rightarrow> json \<Rightarrow> page" where
  "handleProblemSelected pg problem =
     pg\<lparr>currentProblem := problem, originalProblem := JNull, isMasteryCheck := False,
        showMasteryCheckModal := False, showCelebrationModal := False\<rparr>"

definition handleOriginalCorrectAnswer :: "page \<Rightarrow> page" where
  "handleOriginalCorrectAnswer pg = pg\<lparr>showMasteryCheckModal := True\<rparr>"

definition handleSkipMasteryCheck :: "page \<Rightarrow> page" where
  "handleSkipMasteryCheck pg =
     pg\<lparr>showMasteryCheckModal := False, currentProblem := JNull, originalProblem := JNull\<rparr>"

definition handleMasteryCorrectAnswer :: "page \<Rightarrow> page" where
  "handleMasteryCorrectAnswer pg =
     pg\<lparr>celebrationType := mastery_passed, showCelebrationModal := True\<rparr>"

definition handleMasteryFailed :: "page \<Rightarrow> page" where
  "handleMasteryFailed pg =
     pg\<lparr>celebrationType := mastery_failed, showCelebrationModal := True\<rparr>"

definition handleCelebrationContinue :: "page \<Rightarrow> page" where
  "handleCelebrationContinue pg =
     pg\<lparr>showCelebrationModal := False, currentProblem := JNull, originalProblem := JNull,
        isMasteryCheck := False\<rparr>"

definition handleTryAnother :: "page \<Rightarrow> page" where
  "handleTryAnother pg =
     pg\<lparr>currentProblem := JNull, originalProblem := JNull, isMasteryCheck := False,
        showMasteryCheckModal := False, showCelebrationModal := False\<rparr>"

text \<open>
  What the client sends out. \<^verbatim>\<open>updateProblemAttempt\<close> of
  \<^verbatim>\<open>lib/db/sessions.ts\<close> is the only function of the repository that writes
  an attempt's \<^verbatim>\<open>final_status\<close>; it is listed so that its absence from a
  handler can be stated. Console logging is not an effect here.
\<close>

datatype final_status = mastered | incomplete | struggling

datatype effect =
    PostEvaluate evaluate_request
  | PostGenerateSimilar "json option" nat string
  | UpdateProblemAttempt final_status

text \<open>
  The body of a reply of \<^verbatim>\<open>/api/generate-similar\<close> as the page reads it:
  \<^verbatim>\<open>null\<close>, or an object whose \<^verbatim>\<open>problems\<close> property is absent (the
  route's error bodies) or an array (its success body). The route sends
  nothing else, and the page's reads of \<^verbatim>\<open>.length\<close> and \<^verbatim>\<open>[0]\<close> are
  modelled for these shapes only.
\<close>

datatype similar_body = NullBody | ProblemsBody "json list option"

text \<open>
  \<^verbatim>\<open>handleStartMasteryCheck\<close>. The read \<^verbatim>\<open>currentProblem!.id\<close> throws inside
  the \<^verbatim>\<open>try\<close> when there is no current problem, before any request is sent.
  \<open>start_failure\<close> is the \<^verbatim>\<open>catch\<close> block followed by the \<^verbatim>\<open>finally\<close>.
\<close>

definition start_failure :: "page \<Rightarrow> page" where
  "start_failure pg =
     pg\<lparr>showMasteryCheckModal := False, currentProblem := JNull,
        isGeneratingMastery := False\<rparr>"

definition handleStartMasteryCheck :: "page \<Rightarrow> similar_body fetch_result \<Rightarrow> page \<times> effect list" where
  "handleStartMasteryCheck pg r =
     (if currentProblem pg = JNull then (start_failure pg, [])
      else
        (case r of
           Response True (Some (ProblemsBody (Some (masteryProblem # rest)))) \<Rightarrow>
             (pg\<lparr>showMasteryCheckModal := False,
                 originalProblem := currentProblem pg,
                 currentProblem := masteryProblem,
                 isMasteryCheck := True,
                 isGeneratingMastery := False\<rparr>,
              [PostGenerateSimilar (field (currentProblem pg) ''id'') 1 ''same''])
         | _ \<Rightarrow>
             (start_failure pg,
              [PostGenerateSimilar (field (currentProblem pg) ''id'') 1 ''same''])))"

section \<open>Page and chat together\<close>

text \<open>
  The page renders the chat while \<^verbatim>\<open>currentProblem\<close> is truthy and the
  problem picker otherwise. The chat is mounted with fresh state when a
  problem is picked; it stays mounted, with its state, when the page swaps the
  current problem for the generated mastery problem. The callbacks that the
  chat has scheduled with \<^verbatim>\<open>setTimeout\<close> and that have not fired yet are
  kept in \<open>timers\<close>, oldest first; nothing in the code cancels a timer.
\<close>

record app =
  pg :: page
  ch :: chat
  timers :: "callback list"

definition app_init :: app where
  "app_init = \<lparr>pg = page_init, ch = chat_init, timers = []\<rparr>"

text \<open>The props of \<^verbatim>\<open><TutorChat ... />\<close> in the page's render.\<close>

definition props_of :: "page \<Rightarrow> props" where
  "props_of g =
     \<lparr>problemId = field (currentProblem g) ''id'',
      isMasteryCheckProp = isMasteryCheck g,
      onCorrectAnswer =
        Some (if isMasteryCheck g then HandleMasteryCorrectAnswer else HandleOriginalCorrectAnswer),
      onMasteryFailed = Some HandleMasteryFailed\<rparr>"

fun run_callback :: "page \<Rightarrow> callback \<Rightarrow> page" where
  "run_callback g HandleOriginalCorrectAnswer = handleOriginalCorrectAnswer g"
| "run_callback g HandleMasteryCorrectAnswer = handleMasteryCorrectAnswer g"
| "run_callback g HandleMasteryFailed = handleMasteryFailed g"

text \<open>
  What can happen next: an action of the learner, with the outcome of the
  request it makes, or the oldest timer firing. A request settles within its
  step; the callbacks its handler schedules fire in later steps.
\<close>

datatype event =
    SelectProblem json
  | TypeInput string
  | Submit "json fetch_result"
  | ShowSolution "json fetch_result"
  | StartMasteryCheck "similar_body fetch_result"
  | SkipMasteryCheck
  | CelebrationContinue
  | TryAnother
  | TimerFires

text \<open>
  An action is possible when the element that triggers it is rendered and not
  disabled; a timer can fire when one is pending.
\<close>

fun enabled :: "app \<Rightarrow> event \<Rightarrow> bool" where
  "enabled a (SelectProblem problem) = (\<not> truthy (Some (currentProblem (pg a))))"
| "enabled a (TypeInput v) = (truthy (Some (currentProblem (pg a))) \<and> \<not> isLoading (ch a))"
| "enabled a (Submit r) = (truthy (Some (currentProblem (pg a))) \<and> \<not> isLoading (ch a))"
| "enabled a (ShowSolution r) =
     (truthy (Some (currentProblem (pg a))) \<and> showSolutionButton (ch a) \<and> \<not> isLoading (ch a))"
| "enabled a (StartMasteryCheck r) = showMasteryCheckModal (pg a)"
| "enabled a SkipMasteryCheck = showMasteryCheckModal (pg a)"
| "enabled a CelebrationContinue = showCelebrationModal (pg a)"
| "enabled a TryAnother = (truthy (Some (currentProblem (pg a))) \<and> \<not> isMasteryCheck (pg a))"
| "enabled a TimerFires = (timers a \<noteq> [])"

text \<open>The chat's state is lost when the page stops rendering it.\<close>

definition mounted :: "app \<Rightarrow> page \<Rightarrow> app" where
  "mounted a g =
     a\<lparr>pg := g, ch := (if truthy (Some (currentProblem g)) then ch a else chat_init)\<rparr>"

fun step :: "app \<Rightarrow> event \<Rightarrow> app \<times> effect list" where
  "step a (SelectProblem problem) =
     (a\<lparr>pg := handleProblemSelected (pg a) problem, ch := chat_init\<rparr>, [])"
| "step a (TypeInput v) = (a\<lparr>ch := (ch a)\<lparr>input := v\<rparr>\<rparr>, [])"
| "step a (Submit r) =
     (case handleSubmit_start (props_of (pg a)) (ch a) of
        (c, None) \<Rightarrow> (a\<lparr>ch := c\<rparr>, [])
      | (c, Some req) \<Rightarrow>
          (case handleSubmit_finish (props_of (pg a)) c r of
             (c', cbs) \<Rightarrow> (a\<lparr>ch := c', timers := timers a @ cbs\<rparr>, [PostEvaluate req])))"
| "step a (ShowSolution r) =
     (case handleShowSolution_start (props_of (pg a)) (ch a) of
        (c, req) \<Rightarrow>
          (case handleShowSolution_finish c r of
             (c', cbs) \<Rightarrow> (a\<lparr>ch := c', timers := timers a @ cbs\<rparr>, [PostEvaluate req])))"
| "step a (StartMasteryCheck r) =
     (case handleStartMasteryCheck (pg a) r of (g, effs) \<Rightarrow> (mounted a g, effs))"
| "step a SkipMasteryCheck = (mounted a (handleSkipMasteryCheck (pg a)), [])"
| "step a CelebrationContinue = (mounted a (handleCelebrationContinue (pg a)), [])"
| "step a TryAnother = (mounted a (handleTryAnother (pg a)), [])"
| "step a TimerFires =
     (case timers a of
        [] \<Rightarrow> (a, [])
      | cb # rest \<Rightarrow> (a\<lparr>pg := run_callback (pg a) cb, timers := rest\<rparr>, []))"

inductive reachable :: "app \<Rightarrow> bool" where
  reachable_init: "reachable app_init"
| reachable_step: "reachable a \<Longrightarrow> enabled a e \<Longrightarrow> reachable (fst (step a e))"

text \<open>Running a list of events; one that is not possible is skipped.\<close>

fun run :: "app \<Rightarrow> event list \<Rightarrow> app" where
  "run a [] = a"
| "run a (e # es) = run (if enabled a e then fst (step a e) else a) es"

text \<open>
  Sample data: a problem of the repository's table, the table holding it, a
  generated problem, and three evaluations the model may send.
\<close>

definition sample_problem :: json where
  "sample_problem = JObj [(''id'', JStr ''problem_00001''), (''text'', JStr ''456, 567, 678, ?'')]"

definition sample_db :: "json \<Rightarrow> json option" where
  "sample_db i = (if i = JStr ''problem_00001'' then Some sample_problem else None)"

definition generated_problem :: json where
  "generated_problem = JObj
     [(''id'', JStr ''problem_00002''), (''text'', JStr ''123, 234, 345, ?''),
      (''expected_answer'', JStr ''456''), (''explanation'', JStr ''Add 111 each time.''),
      (''complexity'', JStr ''easy'')]"

definition correct_evaluation :: json where
  "correct_evaluation = JObj
     [(''response_type'', JStr ''correct_final''), (''tutor_message'', JStr ''Well done!''),
      (''badge_type'', JStr ''partial_progress''), (''show_solution_button'', JBool False)]"

definition hint_evaluation :: json where
  "hint_evaluation = JObj
     [(''response_type'', JStr ''needs_hint''), (''tutor_message'', JStr ''Look at the digits.''),
      (''badge_type'', JStr ''hint_given''), (''show_solution_button'', JBool False)]"

definition offer_evaluation :: json where
  "offer_evaluation = JObj
     [(''response_type'', JStr ''needs_hint''), (''tutor_message'', JStr ''Shall I show you?''),
      (''badge_type'', JStr ''hint_given''), (''show_solution_button'', JBool True)]"

text \<open>
  Sample runs. The learner solves the sample problem and the offer opens;
  the mastery check starts and an answer is typed; that answer is evaluated
  with the solution offer and the timer fires. In the last run the learner
  gives the correct answer twice before the first timer fires, accepts the
  offer, and the second timer fires once the mastery check has started.
\<close>

definition original_solved :: app where
  "original_solved = run app_init
     [SelectProblem sample_problem, TypeInput ''789'',
      Submit (Response True (Some correct_evaluation)), TimerFires]"

definition mastery_started :: app where
  "mastery_started = run original_solved
     [StartMasteryCheck (Response True (Some (ProblemsBody (Some [generated_problem])))),
      TypeInput ''456'']"

definition mastery_offer_opened :: app where
  "mastery_offer_opened = run mastery_started
     [Submit (Response True (Some offer_evaluation)), TimerFires]"

definition nested_offer :: app where
  "nested_offer = run app_init
     [SelectProblem sample_problem, TypeInput ''789'',
      Submit (Response True (Some correct_evaluation)),
      TypeInput ''789'',
      Submit (Response True (Some correct_evaluation)),
      TimerFires,
      StartMasteryCheck (Response True (Some (ProblemsBody (Some [generated_problem])))),
      TimerFires]"

text \<open>
  A sequence of turns of one chat: the learner types an answer, submits it,
  and the request settles.
\<close>

fun submit_all :: "props \<Rightarrow> chat \<Rightarrow> (string \<times> json fetch_result) list \<Rightarrow> chat" where
  "submit_all p s [] = s"
| "submit_all p s ((v, r) # ts) = submit_all p (fst (handleSubmit p (s\<lparr>input := v\<rparr>) r)) ts"

text \<open>
  Two readings of a turn: it is submitted past the guard and its evaluation
  carries the badge \<^verbatim>\<open>hint_given\<close>, respectively a truthy
  \<^verbatim>\<open>show_solution_button\<close>.
\<close>

fun hint_turn :: "string \<times> json fetch_result \<Rightarrow> bool" where
  "hint_turn (v, r) =
     (trim v \<noteq> [] \<and>
      (case evaluated r of
         Some result \<Rightarrow> field result ''badge_type'' = Some (JStr ''hint_given'')
       | None \<Rightarrow> False))"

fun offer_turn :: "string \<times> json fetch_result \<Rightarrow> bool" where
  "offer_turn (v, r) =
     (trim v \<noteq> [] \<and>
      (case evaluated r of
         Some result \<Rightarrow> truthy (field result ''show_solution_button'')
       | None \<Rightarrow> False))"

section \<open>The diagnostic: \<^verbatim>\<open>lib/llm/diagnose.ts\<close>\<close>






text \<open>
  \<^verbatim>\<open>getRecommendedPractice\<close>, called with a diagnostic that
  \<^verbatim>\<open>diagnoseStudent\<close> returned and a problem of the table. It never throws; the
  result may be undefined when the diagnostic has no recommendations.
\<close>

definition getRecommendedPractice :: "parser \<Rightarrow> llm \<Rightarrow> nat \<Rightarrow> json \<Rightarrow> json option \<times> nat" where
  "getRecommendedPractice parse gpt n diagnostic =
     (if field diagnostic ''misconception_type'' = Some (JStr ''none'')
         \<or> field diagnostic ''misconception_type'' = Some (JStr ''careless_error'')
      then (Some (JArr [JStr ''Continue with similar problems to build confidence'',
                        JStr ''Try slightly harder problems to advance'']), n)
      else
        (case gpt n of
           Content (Some responseText) \<Rightarrow>
             if responseText = [] then (field diagnostic ''recommendations'', Suc n)
             else (case parse responseText of
                     None \<Rightarrow> (field diagnostic ''recommendations'', Suc n)
                   | Some JNull \<Rightarrow> (field diagnostic ''recommendations'', Suc n)
                   | Some parsed \<Rightarrow>
                       (js_or (field parsed ''recommendations'')
                          (field diagnostic ''recommendations''), Suc n))
         | _ \<Rightarrow> (field diagnostic ''recommendations'', Suc n)))"

section \<open>The diagnose route: \<^verbatim>\<open>app/api/diagnose/route.ts\<close>\<close>

text \<open>
  The calls a route makes to its collaborators, in order: the problem lookup,
  completions of the model (by their index), and the three functions of
  \<^verbatim>\<open>lib/db/sessions.ts\<close> that write an attempt or its conversation. The
  writers are listed so that their absence from a route can be stated.
\<close>

datatype server_call =
    DbGetProblemById json
  | OpenAiCompletion nat
  | DbCreateProblemAttempt
  | DbUpdateProblemAttempt
  | DbAddMessage






section \<open>Facts about the handlers\<close>

lemma handleSubmit_guarded:
  "trim (input s) \<noteq> [] \<Longrightarrow> \<not> isLoading s \<Longrightarrow>
   handleSubmit p s r =
     handleSubmit_finish p
       (s\<lparr>messages := messages s @
             [\<lparr>msg_role = Student, msg_text = Some (JStr (trim (input s))), msg_badge = None\<rparr>],
           input := [], isLoading := True\<rparr>) r"
  by (simp add: handleSubmit_def handleSubmit_start_def)

lemma handleSubmit_ignored:
  "trim (input s) = [] \<or> isLoading s \<Longrightarrow> handleSubmit p s r = (s, [])"
  by (auto simp add: handleSubmit_def handleSubmit_start_def)

lemma hintsUsed_handleSubmit:
  "hintsUsed (fst (handleSubmit p s r)) =
     hintsUsed s + (if \<not> isLoading s \<and> hint_turn (input s, r) then 1 else 0)"
proof (cases "trim (input s) = [] \<or> isLoading s")
  case True
  then show ?thesis by (auto simp add: handleSubmit_ignored)
next
  case False
  then show ?thesis
    by (cases "evaluated r")
       (simp_all add: handleSubmit_guarded handleSubmit_finish_def submit_catch_def
          submit_result_def Let_def)
qed

lemma showSolutionButton_handleSubmit:
  "showSolutionButton (fst (handleSubmit p s r)) =
     (showSolutionButton s \<or> (\<not> isLoading s \<and> offer_turn (input s, r)))"
proof (cases "trim (input s) = [] \<or> isLoading s")
  case True
  then show ?thesis by (auto simp add: handleSubmit_ignored)
next
  case False
  then show ?thesis
    by (cases "evaluated r")
       (simp_all add: handleSubmit_guarded handleSubmit_finish_def submit_catch_def
          submit_result_def Let_def)
qed

lemma isLoading_handleSubmit:
  "isLoading (fst (handleSubmit p s r)) = isLoading s"
proof (cases "trim (input s) = [] \<or> isLoading s")
  case True
  then show ?thesis by (auto simp add: handleSubmit_ignored)
next
  case False
  then show ?thesis
    by (cases "evaluated r")
       (simp_all add: handleSubmit_guarded handleSubmit_finish_def submit_catch_def
          submit_result_def Let_def)
qed

lemma hintsUsed_submit_all:
  "\<not> isLoading s \<Longrightarrow>
   hintsUsed (submit_all p s ts) = hintsUsed s + length (filter hint_turn ts)"
proof (induction ts arbitrary: s)
  case Nil
  then show ?case by simp
next
  case (Cons t ts)
  obtain v r where t: "t = (v, r)" by (cases t)
  let ?s' = "fst (handleSubmit p (s\<lparr>input := v\<rparr>) r)"
  have "\<not> isLoading ?s'" using Cons.prems by (simp add: isLoading_handleSubmit)
  then have "hintsUsed (submit_all p ?s' ts) = hintsUsed ?s' + length (filter hint_turn ts)"
    by (rule Cons.IH)
  then show ?case using Cons.prems unfolding t
    by (simp add: hintsUsed_handleSubmit del: hint_turn.simps)
qed

lemma showSolutionButton_submit_all:
  "\<not> isLoading s \<Longrightarrow>
   showSolutionButton (submit_all p s ts) = (showSolutionButton s \<or> (\<exists>t \<in> set ts. offer_turn t))"
proof (induction ts arbitrary: s)
  case Nil
  then show ?case by simp
next
  case (Cons t ts)
  obtain v r where t: "t = (v, r)" by (cases t)
  let ?s' = "fst (handleSubmit p (s\<lparr>input := v\<rparr>) r)"
  have "\<not> isLoading ?s'" using Cons.prems by (simp add: isLoading_handleSubmit)
  then have "showSolutionButton (submit_all p ?s' ts)
      = (showSolutionButton ?s' \<or> (\<exists>t \<in> set ts. offer_turn t))"
    by (rule Cons.IH)
  then show ?case using Cons.prems unfolding t
    by (auto simp add: showSolutionButton_handleSubmit simp del: offer_turn.simps)
qed

lemma hintsUsed_submit_all_bounds:
  "hintsUsed s \<le> hintsUsed (submit_all p s ts)
   \<and> hintsUsed (submit_all p s ts) \<le> hintsUsed s + length ts"
proof (induction ts arbitrary: s)
  case Nil
  then show ?case by simp
next
  case (Cons t ts)
  obtain v r where t: "t = (v, r)" by (cases t)
  let ?s' = "fst (handleSubmit p (s\<lparr>input := v\<rparr>) r)"
  have a: "hintsUsed s \<le> hintsUsed ?s' \<and> hintsUsed ?s' \<le> hintsUsed s + 1"
    by (simp add: hintsUsed_handleSubmit del: hint_turn.simps)
  have b: "hintsUsed ?s' \<le> hintsUsed (submit_all p ?s' ts)
      \<and> hintsUsed (submit_all p ?s' ts) \<le> hintsUsed ?s' + length ts"
    by (rule Cons.IH)
  show ?case unfolding t using a b by simp
qed

lemma hintsUsed_handleShowSolution:
  "hintsUsed (fst (handleShowSolution p s r)) = hintsUsed s"
  by (simp add: handleShowSolution_def handleShowSolution_start_def handleShowSolution_finish_def
      split: fetch_result.splits option.splits)

lemma fallback_not_null [simp]: "evaluate_fallback \<noteq> JNull"
  by (simp add: evaluate_fallback_def)

lemma evaluated_fallback [simp]:
  "evaluated (Response True (Some evaluate_fallback)) = Some evaluate_fallback"
  by simp

lemma field_fallback_badge: "field evaluate_fallback ''badge_type'' = Some (JStr ''hint_given'')"
  by (simp add: evaluate_fallback_def)


lemma field_fallback_button: "field evaluate_fallback ''show_solution_button'' = Some (JBool False)"
  by (simp add: evaluate_fallback_def)

lemma trim_seven [simp]: "trim ''7'' = ''7''"
  by (simp add: trim_def is_space_def)

lemma evaluateAnswer_rejected:
  "evaluateAnswer parse model_down n = (evaluate_fallback, Suc n)"
  by (simp add: evaluateAnswer_def evaluate_try_def model_down_def)



lemma as_fetch_200 [simp]: "as_fetch (200, j) = Response True (Some j)"
  by (simp add: as_fetch_def)


lemma handleSubmit_start_loading:
  "isLoading s \<Longrightarrow> handleSubmit_start p s = (s, None)"
  by (simp add: handleSubmit_start_def)

lemma handleSubmit_start_sets_loading:
  "handleSubmit_start p s = (s1, Some req) \<Longrightarrow> isLoading s1"
  by (auto simp add: handleSubmit_start_def split: if_splits)


lemma explanation_nonempty: "fst (getSolutionExplanation gpt n) \<noteq> []"
  by (simp add: getSolutionExplanation_def split: completion.splits option.splits)

lemma evaluate_POST_solution:
  "problem_id b = Some pid \<Longrightarrow> truthy (Some pid) \<Longrightarrow> student_answer b \<noteq> [] \<Longrightarrow>
   db pid = Some problem \<Longrightarrow> request_solution b \<Longrightarrow>
   evaluate_POST parse db gpt n (Some b) =
     ((200, solution_response (fst (getSolutionExplanation gpt n))),
      snd (getSolutionExplanation gpt n))"
  by (simp add: evaluate_POST_def split: prod.splits)

lemma handleShowSolution_solution_response:
  "explanation \<noteq> [] \<Longrightarrow>
   handleShowSolution p s (Response ok (Some (solution_response explanation))) =
     (s\<lparr>messages := messages s @
          [\<lparr>msg_role = Tutor, msg_text = Some (JStr explanation), msg_badge = None\<rparr>],
        showSolutionButton := False, isLoading := False\<rparr>, [])"
  by (simp add: handleShowSolution_def handleShowSolution_start_def handleShowSolution_finish_def
      solution_response_def js_or_def)

lemma handleShowSolution_frame:
  "snd (handleShowSolution p s r) = []
   \<and> take (length (messages s)) (messages (fst (handleShowSolution p s r))) = messages s
   \<and> length (messages (fst (handleShowSolution p s r))) \<le> length (messages s) + 1"
  by (simp add: handleShowSolution_def handleShowSolution_start_def handleShowSolution_finish_def
      split: fetch_result.splits option.splits)

lemma snd_submit_result:
  "snd (submit_result p c result) =
     (if truthy (field result ''show_solution_button'') \<and> isMasteryCheckProp p
      then (case onMasteryFailed p of Some cb \<Rightarrow> [cb] | None \<Rightarrow> []) else [])
     @ (if field result ''response_type'' = Some (JStr ''correct_final'')
        then (case onCorrectAnswer p of Some cb \<Rightarrow> [cb] | None \<Rightarrow> []) else [])"
  unfolding submit_result_def Let_def by (rule snd_conv)

lemma callbacks_of_page:
  "snd (submit_result (props_of g) c result) =
     (if truthy (field result ''show_solution_button'') \<and> isMasteryCheck g
      then [HandleMasteryFailed] else [])
     @ (if field result ''response_type'' = Some (JStr ''correct_final'')
        then [if isMasteryCheck g then HandleMasteryCorrectAnswer else HandleOriginalCorrectAnswer]
        else [])"
  unfolding snd_submit_result props_of_def by simp

lemma page_after_result:
  "foldl run_callback g (snd (submit_result (props_of g) c result)) =
     (if field result ''response_type'' = Some (JStr ''correct_final'')
      then (if isMasteryCheck g then handleMasteryCorrectAnswer
              (if truthy (field result ''show_solution_button'') then handleMasteryFailed g else g)
            else handleOriginalCorrectAnswer g)
      else (if truthy (field result ''show_solution_button'') \<and> isMasteryCheck g
            then handleMasteryFailed g else g))"
  unfolding callbacks_of_page by simp

lemma step_ShowSolution_page:
  "pg (fst (step a (ShowSolution r))) = pg a \<and> timers (fst (step a (ShowSolution r))) = timers a"
  by (simp add: handleShowSolution_start_def handleShowSolution_finish_def
      split: fetch_result.splits option.splits prod.splits)

lemma reachable_run: "reachable a \<Longrightarrow> reachable (run a es)"
proof (induction es arbitrary: a)
  case Nil
  then show ?case by simp
next
  case (Cons e es)
  show ?case
  proof (cases "enabled a e")
    case True
    with Cons.prems have "reachable (fst (step a e))" by (rule reachable_step)
    then have "reachable (run (fst (step a e)) es)" by (rule Cons.IH)
    with True show ?thesis by simp
  next
    case False
    with Cons show ?thesis by simp
  qed
qed

lemmas page_handlers =
  handleProblemSelected_def handleOriginalCorrectAnswer_def handleSkipMasteryCheck_def
  handleMasteryCorrectAnswer_def handleMasteryFailed_def handleCelebrationContinue_def
  handleTryAnother_def handleStartMasteryCheck_def start_failure_def

lemmas chat_handlers =
  handleSubmit_start_def handleSubmit_finish_def submit_result_def submit_catch_def
  props_of_def Let_def

lemma trim_samples [simp]: "trim ''789'' = ''789''" "trim ''456'' = ''456''"
  by (simp_all add: trim_def is_space_def)

lemma original_solved_eq:
  "original_solved =
     \<lparr>pg = \<lparr>currentProblem = sample_problem, originalProblem = JNull, isMasteryCheck = False,
             showMasteryCheckModal = True, showCelebrationModal = False,
             celebrationType = mastery_passed, isGeneratingMastery = False\<rparr>,
      ch = \<lparr>messages =
              [\<lparr>msg_role = Student, msg_text = Some (JStr ''789''), msg_badge = None\<rparr>,
               \<lparr>msg_role = Tutor, msg_text = Some (JStr ''Well done!''),
                 msg_badge = Some (JStr ''partial_progress'')\<rparr>],
            input = [], isLoading = False, hintsUsed = 0, showSolutionButton = False\<rparr>,
      timers = []\<rparr>"
  by (simp add: original_solved_def app_init_def page_init_def chat_init_def sample_problem_def
      correct_evaluation_def page_handlers chat_handlers)

lemma mastery_started_eq:
  "mastery_started =
     \<lparr>pg = \<lparr>currentProblem = generated_problem, originalProblem = sample_problem,
             isMasteryCheck = True, showMasteryCheckModal = False, showCelebrationModal = False,
             celebrationType = mastery_passed, isGeneratingMastery = False\<rparr>,
      ch = \<lparr>messages =
              [\<lparr>msg_role = Student, msg_text = Some (JStr ''789''), msg_badge = None\<rparr>,
               \<lparr>msg_role = Tutor, msg_text = Some (JStr ''Well done!''),
                 msg_badge = Some (JStr ''partial_progress'')\<rparr>],
            input = ''456'', isLoading = False, hintsUsed = 0, showSolutionButton = False\<rparr>,
      timers = []\<rparr>"
  by (simp add: mastery_started_def original_solved_eq page_handlers mounted_def
      sample_problem_def generated_problem_def)

lemma mastery_offer_opened_eq:
  "mastery_offer_opened =
     \<lparr>pg = \<lparr>currentProblem = generated_problem, originalProblem = sample_problem,
             isMasteryCheck = True, showMasteryCheckModal = False, showCelebrationModal = True,
             celebrationType = mastery_failed, isGeneratingMastery = False\<rparr>,
      ch = \<lparr>messages =
              [\<lparr>msg_role = Student, msg_text = Some (JStr ''789''), msg_badge = None\<rparr>,
               \<lparr>msg_role = Tutor, msg_text = Some (JStr ''Well done!''),
                 msg_badge = Some (JStr ''partial_progress'')\<rparr>,
               \<lparr>msg_role = Student, msg_text = Some (JStr ''456''), msg_badge = None\<rparr>,
               \<lparr>msg_role = Tutor, msg_text = Some (JStr ''Shall I show you?''),
                 msg_badge = Some (JStr ''hint_given'')\<rparr>],
            input = [], isLoading = False, hintsUsed = 1, showSolutionButton = True\<rparr>,
      timers = []\<rparr>"
  by (simp add: mastery_offer_opened_def mastery_started_eq generated_problem_def
      offer_evaluation_def page_handlers chat_handlers)

lemma nested_offer_eq:
  "nested_offer =
     \<lparr>pg = \<lparr>currentProblem = generated_problem, originalProblem = sample_problem,
             isMasteryCheck = True, showMasteryCheckModal = True, showCelebrationModal = False,
             celebrationType = mastery_passed, isGeneratingMastery = False\<rparr>,
      ch = \<lparr>messages =
              [\<lparr>msg_role = Student, msg_text = Some (JStr ''789''), msg_badge = None\<rparr>,
               \<lparr>msg_role = Tutor, msg_text = Some (JStr ''Well done!''),
                 msg_badge = Some (JStr ''partial_progress'')\<rparr>,
               \<lparr>msg_role = Student, msg_text = Some (JStr ''789''), msg_badge = None\<rparr>,
               \<lparr>msg_role = Tutor, msg_text = Some (JStr ''Well done!''),
                 msg_badge = Some (JStr ''partial_progress'')\<rparr>],
            input = [], isLoading = False, hintsUsed = 0, showSolutionButton = False\<rparr>,
      timers = []\<rparr>"
  by (simp add: nested_offer_def app_init_def page_init_def chat_init_def sample_problem_def
      generated_problem_def correct_evaluation_def page_handlers chat_handlers mounted_def)

lemma reachable_original_solved: "reachable original_solved"
  unfolding original_solved_def by (intro reachable_run reachable_init)

lemma reachable_mastery_started: "reachable mastery_started"
  unfolding mastery_started_def by (intro reachable_run reachable_original_solved)

lemma reachable_nested_offer: "reachable nested_offer"
  unfolding nested_offer_def by (intro reachable_run reachable_init)

lemma step_Submit_guarded:
  "trim (input (ch a)) \<noteq> [] \<Longrightarrow> \<not> isLoading (ch a) \<Longrightarrow>
   pg (fst (step a (Submit r))) = pg a
   \<and> timers (fst (step a (Submit r))) = timers a @
        (case evaluated r of
           None \<Rightarrow> []
         | Some result \<Rightarrow>
             snd (submit_result (props_of (pg a))
               (fst (handleSubmit_start (props_of (pg a)) (ch a))) result))"
  by (simp add: handleSubmit_start_def handleSubmit_finish_def split: prod.splits option.splits)

lemma handleStartMasteryCheck_failure:
  assumes "\<not> (\<exists>masteryProblem rest.
              r = Response True (Some (ProblemsBody (Some (masteryProblem # rest)))))"
  shows "fst (handleStartMasteryCheck g r) = start_failure g
     \<and> (snd (handleStartMasteryCheck g r) = []
        \<or> snd (handleStartMasteryCheck g r)
            = [PostGenerateSimilar (field (currentProblem g) ''id'') 1 ''same''])"
  using assms
  by (auto simp add: handleStartMasteryCheck_def
      split: fetch_result.splits option.splits similar_body.splits list.splits bool.splits)

lemma mastery_turn_schedules_no_offer:
  assumes "isMasteryCheck (pg a)"
  shows "HandleOriginalCorrectAnswer \<notin> set (timers (fst (step a (Submit r)))) - set (timers a)
     \<and> (\<forall>i k d. PostGenerateSimilar i k d \<notin> set (snd (step a (Submit r))))
     \<and> showMasteryCheckModal (run_callback g HandleMasteryCorrectAnswer) = showMasteryCheckModal g
     \<and> showMasteryCheckModal (run_callback g HandleMasteryFailed) = showMasteryCheckModal g"
proof (cases "trim (input (ch a)) = [] \<or> isLoading (ch a)")
  case True
  then have "step a (Submit r) = (a, [])" by (auto simp add: handleSubmit_start_def)
  then show ?thesis by (simp add: handleMasteryCorrectAnswer_def handleMasteryFailed_def)
next
  case False
  then have t: "timers (fst (step a (Submit r))) = timers a @
        (case evaluated r of
           None \<Rightarrow> []
         | Some result \<Rightarrow>
             snd (submit_result (props_of (pg a))
               (fst (handleSubmit_start (props_of (pg a)) (ch a))) result))"
    using step_Submit_guarded [of a r] by blast
  have e: "\<forall>i k d. PostGenerateSimilar i k d \<notin> set (snd (step a (Submit r)))"
    by (simp add: handleSubmit_start_def split: prod.splits)
  show ?thesis using assms e unfolding t
    by (simp add: callbacks_of_page handleMasteryCorrectAnswer_def handleMasteryFailed_def
        split: option.splits del: step.simps)
qed




lemma getRecommendedPractice_calls:
  "snd (getRecommendedPractice parse gpt n d) = n \<or> snd (getRecommendedPractice parse gpt n d) = Suc n"
  by (simp add: getRecommendedPractice_def split: completion.splits option.splits json.splits)


lemma handleShowSolution_body:
  "result \<noteq> JNull \<Longrightarrow>
   handleShowSolution p s (Response ok (Some result)) =
     (s\<lparr>messages := messages s @
          [\<lparr>msg_role = Tutor,
            msg_text = js_or (field result ''explanation'') (field result ''tutor_message''),
            msg_badge = None\<rparr>],
        showSolutionButton := False, isLoading := False\<rparr>, [])"
  by (simp add: handleShowSolution_def handleShowSolution_start_def handleShowSolution_finish_def)

lemma handleShowSolution_failed:
  "r = FetchRejected \<or> r = Response ok None \<or> r = Response ok (Some JNull) \<Longrightarrow>
   handleShowSolution p s r = (s\<lparr>isLoading := False\<rparr>, [])"
  by (auto simp add: handleShowSolution_def handleShowSolution_start_def handleShowSolution_finish_def)

section \<open>The hint counter\<close>

text \<open>
  C1, as the code has it. The hint counter of a chat is a natural number that
  no handler decreases. A submission raises it by at most one, and by exactly
  one whenever the turn is evaluated with the badge \<^verbatim>\<open>hint_given\<close>, whatever
  the counter's value: the component has no ceiling, so a badged turn arriving
  at 3 takes the counter to 4. Over a sequence of turns the counter grows by
  at most the number of turns. A solution request leaves it unchanged.
\<close>

theorem hint_counter_monotone_unbounded:
  "hintsUsed s \<le> hintsUsed (fst (handleSubmit p s r))
   \<and> hintsUsed (fst (handleSubmit p s r)) \<le> hintsUsed s + 1
   \<and> hintsUsed (fst (handleShowSolution p s r)) = hintsUsed s
   \<and> hintsUsed s \<le> hintsUsed (submit_all p s ts)
   \<and> hintsUsed (submit_all p s ts) \<le> hintsUsed s + length ts
   \<and> (\<not> isLoading s \<and> hint_turn (input s, r)
        \<longrightarrow> hintsUsed (fst (handleSubmit p s r)) = hintsUsed s + 1)"
  by (simp add: hintsUsed_handleSubmit hintsUsed_handleShowSolution hintsUsed_submit_all_bounds
      del: hint_turn.simps)

text \<open>A chat whose counter is 3 receives one more badged turn.\<close>

theorem hint_counter_monotone_unbounded_witness:
  "\<not> isLoading (chat_init\<lparr>hintsUsed := 3, input := ''7''\<rparr>)
   \<and> hint_turn (input (chat_init\<lparr>hintsUsed := 3, input := ''7''\<rparr>),
        Response True (Some evaluate_fallback))
   \<and> hintsUsed (fst (handleSubmit (props_of page_init) (chat_init\<lparr>hintsUsed := 3, input := ''7''\<rparr>)
        (Response True (Some evaluate_fallback)))) = 4"
  using hint_counter_monotone_unbounded [of "chat_init\<lparr>hintsUsed := 3, input := ''7''\<rparr>"
      "props_of page_init" "Response True (Some evaluate_fallback)" "[]"]
  by (simp add: chat_init_def field_fallback_badge)

text \<open>
  The claim's bound fails: the model cannot be reached during four
  submissions in a row, each answered by the gateway's fallback, and the
  counter of a fresh chat ends at 4.
\<close>

theorem hint_counter_ceiling_counterexample:
  "hintsUsed (submit_all (props_of page_init) chat_init
      [(''7'', Response True (Some (fst (evaluateAnswer parse_nothing model_down 0)))),
       (''7'', Response True (Some (fst (evaluateAnswer parse_nothing model_down 1)))),
       (''7'', Response True (Some (fst (evaluateAnswer parse_nothing model_down 2)))),
       (''7'', Response True (Some (fst (evaluateAnswer parse_nothing model_down 3))))]) = 4"
  by (simp add: hintsUsed_submit_all chat_init_def evaluateAnswer_rejected field_fallback_badge
      del: submit_all.simps)

text \<open>
  C7. On every turn that is submitted past the guard, the hint counter goes up
  by one exactly when the tutor turn appended last carries the badge
  \<^verbatim>\<open>hint_given\<close>, and stays as it was otherwise; the turn appends the
  learner's message and one tutor message.
\<close>

theorem hint_badge_iff_increment:
  assumes "trim (input s) \<noteq> []" and "\<not> isLoading s"
  shows "(hintsUsed (fst (handleSubmit p s r)) = hintsUsed s + 1
            \<longleftrightarrow> msg_badge (last (messages (fst (handleSubmit p s r)))) = Some (JStr ''hint_given''))
         \<and> (hintsUsed (fst (handleSubmit p s r)) \<noteq> hintsUsed s + 1
            \<longrightarrow> hintsUsed (fst (handleSubmit p s r)) = hintsUsed s)
         \<and> msg_role (last (messages (fst (handleSubmit p s r)))) = Tutor
         \<and> length (messages (fst (handleSubmit p s r))) = length (messages s) + 2"
  using assms
  by (cases "evaluated r")
     (simp_all add: handleSubmit_guarded handleSubmit_finish_def submit_catch_def
        submit_result_def Let_def)

theorem hint_badge_iff_increment_witness:
  "trim (input (chat_init\<lparr>input := ''7''\<rparr>)) \<noteq> [] \<and> \<not> isLoading (chat_init\<lparr>input := ''7''\<rparr>)
   \<and> hintsUsed (fst (handleSubmit (props_of page_init) (chat_init\<lparr>input := ''7''\<rparr>)
        (Response True (Some evaluate_fallback)))) = 1
   \<and> msg_badge (last (messages (fst (handleSubmit (props_of page_init) (chat_init\<lparr>input := ''7''\<rparr>)
        (Response True (Some evaluate_fallback)))))) = Some (JStr ''hint_given'')"
proof -
  have a: "trim (input (chat_init\<lparr>input := ''7''\<rparr>)) \<noteq> []" by simp
  have b: "\<not> isLoading (chat_init\<lparr>input := ''7''\<rparr>)" by (simp add: chat_init_def)
  have c: "hintsUsed (fst (handleSubmit (props_of page_init) (chat_init\<lparr>input := ''7''\<rparr>)
        (Response True (Some evaluate_fallback)))) = 1"
    by (simp add: hintsUsed_handleSubmit chat_init_def field_fallback_badge)
  have d: "hintsUsed (chat_init\<lparr>input := ''7''\<rparr>) + 1 = 1" by (simp add: chat_init_def)
  have "msg_badge (last (messages (fst (handleSubmit (props_of page_init) (chat_init\<lparr>input := ''7''\<rparr>)
        (Response True (Some evaluate_fallback)))))) = Some (JStr ''hint_given'')"
    using hint_badge_iff_increment [OF a b, of "props_of page_init"
        "Response True (Some evaluate_fallback)"]
    unfolding c d by blast
  with a b c show ?thesis by blast
qed

section \<open>The solution offer\<close>

text \<open>
  C2, as the code has it. Over every sequence of turns of a chat that is not
  loading, the solution offer is showing afterwards exactly when it was
  showing before or some evaluated turn carried a truthy
  \<^verbatim>\<open>show_solution_button\<close>: the component copies the gateway's flag and does
  not compute the offer from the hint count. The count grows by the number of
  turns badged \<^verbatim>\<open>hint_given\<close>, without a ceiling. A submission never clears an
  offer that is showing.
\<close>

theorem solution_offer_follows_flag:
  "\<not> isLoading s \<Longrightarrow>
     showSolutionButton (submit_all p s ts) = (showSolutionButton s \<or> (\<exists>t \<in> set ts. offer_turn t))
   \<and> hintsUsed (submit_all p s ts) = hintsUsed s + length (filter hint_turn ts)
   \<and> (showSolutionButton s \<longrightarrow> showSolutionButton (fst (handleSubmit p s r)))"
  by (simp add: showSolutionButton_submit_all hintsUsed_submit_all showSolutionButton_handleSubmit
      del: hint_turn.simps offer_turn.simps)

theorem solution_offer_follows_flag_witness:
  "\<not> isLoading chat_init
   \<and> showSolutionButton (submit_all (props_of page_init) chat_init
        [(''7'', Response True (Some (JObj
            [(''response_type'', JStr ''needs_hint''), (''tutor_message'', JStr ''Try again''),
             (''badge_type'', JStr ''hint_given''), (''show_solution_button'', JBool True)])))])
   \<and> hintsUsed (submit_all (props_of page_init) chat_init
        [(''7'', Response True (Some (JObj
            [(''response_type'', JStr ''needs_hint''), (''tutor_message'', JStr ''Try again''),
             (''badge_type'', JStr ''hint_given''), (''show_solution_button'', JBool True)])))]) = 1"
  using solution_offer_follows_flag [of chat_init "props_of page_init"
      "[(''7'', Response True (Some (JObj
            [(''response_type'', JStr ''needs_hint''), (''tutor_message'', JStr ''Try again''),
             (''badge_type'', JStr ''hint_given''), (''show_solution_button'', JBool True)])))]"
      "FetchRejected"]
  by (simp add: chat_init_def del: submit_all.simps)

text \<open>
  The claim's equivalence fails: after three turns answered by the gateway's
  fallback the hint count of a fresh chat is 3 and no solution is offered.
\<close>

theorem solution_offer_counterexample:
  "hintsUsed (submit_all (props_of page_init) chat_init
      [(''7'', Response True (Some (fst (evaluateAnswer parse_nothing model_down 0)))),
       (''7'', Response True (Some (fst (evaluateAnswer parse_nothing model_down 1)))),
       (''7'', Response True (Some (fst (evaluateAnswer parse_nothing model_down 2))))]) = 3
   \<and> \<not> showSolutionButton (submit_all (props_of page_init) chat_init
      [(''7'', Response True (Some (fst (evaluateAnswer parse_nothing model_down 0)))),
       (''7'', Response True (Some (fst (evaluateAnswer parse_nothing model_down 1)))),
       (''7'', Response True (Some (fst (evaluateAnswer parse_nothing model_down 2))))])"
  by (simp add: hintsUsed_submit_all showSolutionButton_submit_all chat_init_def
      evaluateAnswer_rejected field_fallback_badge field_fallback_button del: submit_all.simps)

section \<open>The gateway's fallback\<close>



section \<open>Submissions while a request is in flight\<close>

text \<open>
  C8, as the code has it. While a request is in flight (\<^verbatim>\<open>isLoading\<close> is
  set) a further submission is dropped by the guard of \<^verbatim>\<open>handleSubmit\<close>: the
  handler returns at once, the state is exactly as before, no request is sent
  and no error is raised or shown. A submission that passes the guard sets
  \<^verbatim>\<open>isLoading\<close>, so the next one is dropped whatever has been typed, and at
  most one evaluation request of a chat is outstanding.
\<close>

theorem second_submission_ignored:
  "(isLoading s \<longrightarrow> handleSubmit_start p s = (s, None) \<and> handleSubmit p s r = (s, []))
   \<and> (handleSubmit_start p s = (s1, Some req)
        \<longrightarrow> isLoading s1 \<and> handleSubmit_start p (s1\<lparr>input := v\<rparr>) = (s1\<lparr>input := v\<rparr>, None))
   \<and> (isLoading (ch a) \<longrightarrow> step a (Submit r) = (a, []))"
proof (intro conjI impI)
  assume "isLoading s"
  then show "handleSubmit_start p s = (s, None)" by (rule handleSubmit_start_loading)
next
  assume "isLoading s"
  then show "handleSubmit p s r = (s, [])" by (simp add: handleSubmit_ignored)
next
  assume "handleSubmit_start p s = (s1, Some req)"
  then show "isLoading s1" by (rule handleSubmit_start_sets_loading)
next
  assume "handleSubmit_start p s = (s1, Some req)"
  then have "isLoading (s1\<lparr>input := v\<rparr>)" by (simp add: handleSubmit_start_sets_loading)
  then show "handleSubmit_start p (s1\<lparr>input := v\<rparr>) = (s1\<lparr>input := v\<rparr>, None)"
    by (rule handleSubmit_start_loading)
next
  assume "isLoading (ch a)"
  then show "step a (Submit r) = (a, [])" by (simp add: handleSubmit_start_loading)
qed

theorem second_submission_ignored_witness:
  "isLoading (fst (handleSubmit_start (props_of page_init) (chat_init\<lparr>input := ''7''\<rparr>)))
   \<and> handleSubmit_start (props_of page_init)
        (fst (handleSubmit_start (props_of page_init) (chat_init\<lparr>input := ''7''\<rparr>)))
      = (fst (handleSubmit_start (props_of page_init) (chat_init\<lparr>input := ''7''\<rparr>)), None)"
  using second_submission_ignored [of
      "fst (handleSubmit_start (props_of page_init) (chat_init\<lparr>input := ''7''\<rparr>))"
      "props_of page_init" FetchRejected
      "fst (handleSubmit_start (props_of page_init) (chat_init\<lparr>input := ''7''\<rparr>))"
      "the (snd (handleSubmit_start (props_of page_init) (chat_init\<lparr>input := ''7''\<rparr>)))"
      "''8''" app_init]
  by (simp add: handleSubmit_start_def chat_init_def)

text \<open>
  The claim's error does not exist: an answer is in flight, a second one is
  typed and submitted, and the handler returns the state unchanged and sends
  nothing; the conversation holds the first answer only, and no error turn.
\<close>

theorem concurrent_submission_counterexample:
  "handleSubmit_start (props_of page_init)
     ((fst (handleSubmit_start (props_of page_init) (chat_init\<lparr>input := ''7''\<rparr>)))\<lparr>input := ''8''\<rparr>)
   = ((fst (handleSubmit_start (props_of page_init) (chat_init\<lparr>input := ''7''\<rparr>)))\<lparr>input := ''8''\<rparr>,
      None)
   \<and> messages ((fst (handleSubmit_start (props_of page_init) (chat_init\<lparr>input := ''7''\<rparr>)))\<lparr>input := ''8''\<rparr>)
     = [\<lparr>msg_role = Student, msg_text = Some (JStr ''7''), msg_badge = None\<rparr>]"
  by (simp add: handleSubmit_start_def chat_init_def)

section \<open>The diagnostic\<close>




section \<open>The solution request\<close>

text \<open>
  C10, as the code has it. When the request for the solution settles with a
  JSON body that is not \<^verbatim>\<open>null\<close>, \<^verbatim>\<open>handleShowSolution\<close> appends exactly
  one tutor turn without a badge, holding what the body has under
  \<^verbatim>\<open>explanation\<close> or else under \<^verbatim>\<open>tutor_message\<close> (possibly nothing), clears
  the solution offer and changes nothing else. When the route answers with
  its solution reply, which carries \<^verbatim>\<open>response_type\<close> \<^verbatim>\<open>correct_final\<close> and
  \<^verbatim>\<open>badge_type\<close> \<^verbatim>\<open>hint_given\<close>, that turn holds the explanation. When the
  fetch rejects or the body is not JSON or is \<^verbatim>\<open>null\<close>, nothing is appended
  and the offer stays as it is. Whatever the outcome, the hint counter and the
  messages already there are unchanged, no callback is scheduled, and the
  page's state and pending callbacks are untouched.
\<close>

theorem solution_request_effect:
  "(result \<noteq> JNull \<longrightarrow>
      handleShowSolution p s (Response ok (Some result)) =
        (s\<lparr>messages := messages s @
             [\<lparr>msg_role = Tutor,
               msg_text = js_or (field result ''explanation'') (field result ''tutor_message''),
               msg_badge = None\<rparr>],
           showSolutionButton := False, isLoading := False\<rparr>, []))
   \<and> (r = FetchRejected \<or> r = Response ok None \<or> r = Response ok (Some JNull) \<longrightarrow>
        handleShowSolution p s r = (s\<lparr>isLoading := False\<rparr>, []))
   \<and> (problemId p = Some pid \<and> truthy (Some pid) \<and> db pid = Some problem \<longrightarrow>
      field (snd (fst (evaluate_POST parse db gpt n (Some (snd (handleShowSolution_start p s))))))
          ''response_type'' = Some (JStr ''correct_final'')
      \<and> field (snd (fst (evaluate_POST parse db gpt n (Some (snd (handleShowSolution_start p s))))))
          ''badge_type'' = Some (JStr ''hint_given'')
      \<and> handleShowSolution p s
          (as_fetch (fst (evaluate_POST parse db gpt n (Some (snd (handleShowSolution_start p s))))))
        = (s\<lparr>messages := messages s @
               [\<lparr>msg_role = Tutor, msg_text = Some (JStr (fst (getSolutionExplanation gpt n))),
                 msg_badge = None\<rparr>],
             showSolutionButton := False, isLoading := False\<rparr>, []))
   \<and> hintsUsed (fst (handleShowSolution p s r)) = hintsUsed s
   \<and> snd (handleShowSolution p s r) = []
   \<and> take (length (messages s)) (messages (fst (handleShowSolution p s r))) = messages s
   \<and> pg (fst (step a (ShowSolution r))) = pg a
   \<and> timers (fst (step a (ShowSolution r))) = timers a"
proof (intro conjI impI)
  assume "result \<noteq> JNull"
  then show "handleShowSolution p s (Response ok (Some result)) =
        (s\<lparr>messages := messages s @
             [\<lparr>msg_role = Tutor,
               msg_text = js_or (field result ''explanation'') (field result ''tutor_message''),
               msg_badge = None\<rparr>],
           showSolutionButton := False, isLoading := False\<rparr>, [])"
    by (rule handleShowSolution_body)
next
  assume "r = FetchRejected \<or> r = Response ok None \<or> r = Response ok (Some JNull)"
  then show "handleShowSolution p s r = (s\<lparr>isLoading := False\<rparr>, [])"
    by (rule handleShowSolution_failed)
next
  assume h: "problemId p = Some pid \<and> truthy (Some pid) \<and> db pid = Some problem"
  let ?req = "snd (handleShowSolution_start p s)"
  have req: "problem_id ?req = Some pid" "student_answer ?req \<noteq> []" "request_solution ?req"
    using h by (simp_all add: handleShowSolution_start_def)
  have post: "evaluate_POST parse db gpt n (Some ?req) =
     ((200, solution_response (fst (getSolutionExplanation gpt n))),
      snd (getSolutionExplanation gpt n))"
    using h by (intro evaluate_POST_solution [where pid = pid and problem = problem] req) blast+
  show "field (snd (fst (evaluate_POST parse db gpt n (Some ?req)))) ''response_type''
      = Some (JStr ''correct_final'')"
    by (simp add: post solution_response_def)
  show "field (snd (fst (evaluate_POST parse db gpt n (Some ?req)))) ''badge_type''
      = Some (JStr ''hint_given'')"
    by (simp add: post solution_response_def)
  show "handleShowSolution p s (as_fetch (fst (evaluate_POST parse db gpt n (Some ?req))))
        = (s\<lparr>messages := messages s @
               [\<lparr>msg_role = Tutor, msg_text = Some (JStr (fst (getSolutionExplanation gpt n))),
                 msg_badge = None\<rparr>],
             showSolutionButton := False, isLoading := False\<rparr>, [])"
    by (simp add: post as_fetch_def handleShowSolution_solution_response explanation_nonempty)
next
  show "hintsUsed (fst (handleShowSolution p s r)) = hintsUsed s"
    by (rule hintsUsed_handleShowSolution)
next
  show "snd (handleShowSolution p s r) = []" by (simp add: handleShowSolution_frame)
next
  show "take (length (messages s)) (messages (fst (handleShowSolution p s r))) = messages s"
    by (simp add: handleShowSolution_frame)
next
  show "pg (fst (step a (ShowSolution r))) = pg a"
    by (simp add: step_ShowSolution_page del: step.simps)
next
  show "timers (fst (step a (ShowSolution r))) = timers a"
    by (simp add: step_ShowSolution_page del: step.simps)
qed

text \<open>
  The learner of the first sample run has used three hints and asks for the
  solution while the model cannot be reached.
\<close>

theorem solution_request_effect_witness:
  "problemId (props_of (pg original_solved)) = Some (JStr ''problem_00001'')
   \<and> truthy (Some (JStr ''problem_00001''))
   \<and> sample_db (JStr ''problem_00001'') = Some sample_problem
   \<and> handleShowSolution (props_of (pg original_solved))
        ((ch original_solved)\<lparr>hintsUsed := 3, showSolutionButton := True\<rparr>)
        (as_fetch (fst (evaluate_POST parse_nothing sample_db model_down 0
           (Some (snd (handleShowSolution_start (props_of (pg original_solved))
              ((ch original_solved)\<lparr>hintsUsed := 3, showSolutionButton := True\<rparr>)))))))
     = ((ch original_solved)\<lparr>hintsUsed := 3, showSolutionButton := False,
          messages := messages (ch original_solved) @
            [\<lparr>msg_role = Tutor,
              msg_text = Some (JStr ''Unable to generate solution explanation at this time.''),
              msg_badge = None\<rparr>]\<rparr>, [])"
  using solution_request_effect [of JNull "props_of (pg original_solved)"
      "(ch original_solved)\<lparr>hintsUsed := 3, showSolutionButton := True\<rparr>" True FetchRejected
      "JStr ''problem_00001''" sample_db sample_problem parse_nothing model_down 0 app_init]
  by (simp add: original_solved_eq props_of_def sample_problem_def sample_db_def
      getSolutionExplanation_def model_down_def)

text \<open>
  The claim's first part fails. The same learner asks while the network is
  down: no turn is appended and the offer is still showing. A learner on a
  generated problem, which has no \<^verbatim>\<open>id\<close>, asks: the route answers 400, and
  the turn that is appended holds no text.
\<close>

theorem solution_request_fails_counterexample:
  "handleShowSolution (props_of (pg original_solved))
     ((ch original_solved)\<lparr>hintsUsed := 3, showSolutionButton := True\<rparr>) FetchRejected
   = ((ch original_solved)\<lparr>hintsUsed := 3, showSolutionButton := True\<rparr>, [])
   \<and> handleShowSolution (props_of (page_init\<lparr>currentProblem := JObj [(''text'', JStr ''123, 234, 345, ?'')]\<rparr>))
     (chat_init\<lparr>hintsUsed := 3, showSolutionButton := True\<rparr>)
     (as_fetch (fst (evaluate_POST parse_nothing sample_db model_down 0
        (Some (snd (handleShowSolution_start
           (props_of (page_init\<lparr>currentProblem := JObj [(''text'', JStr ''123, 234, 345, ?'')]\<rparr>))
           (chat_init\<lparr>hintsUsed := 3, showSolutionButton := True\<rparr>)))))))
   = (chat_init\<lparr>hintsUsed := 3,
        messages := [\<lparr>msg_role = Tutor, msg_text = None, msg_badge = None\<rparr>]\<rparr>, [])"
  by (simp add: original_solved_eq handleShowSolution_def handleShowSolution_start_def
      handleShowSolution_finish_def props_of_def page_init_def chat_init_def evaluate_POST_def
      as_fetch_def error_response_def js_or_def)

section \<open>Mastery checks\<close>

text \<open>
  C3, as the code has it. In a mastery check, a turn that passes the guard
  leaves the page as it is and schedules: the failure callback when the
  evaluation carries a truthy \<^verbatim>\<open>show_solution_button\<close>, that is, as soon as
  the solution offer opens, and after it the success callback when the
  evaluation is classified \<^verbatim>\<open>correct_final\<close>; a turn that is not evaluated
  schedules nothing. When it fires, the failure callback shows the
  celebration as \<^verbatim>\<open>mastery_failed\<close> and the success callback shows it as
  \<^verbatim>\<open>mastery_passed\<close>. Requesting the solution changes neither the page nor
  the pending callbacks: it classifies nothing.
\<close>

theorem mastery_classification:
  assumes "isMasteryCheck (pg a)" and "trim (input (ch a)) \<noteq> []" and "\<not> isLoading (ch a)"
  shows "pg (fst (step a (Submit r))) = pg a
     \<and> (evaluated r = None \<longrightarrow> timers (fst (step a (Submit r))) = timers a)
     \<and> (evaluated r = Some result \<longrightarrow>
          timers (fst (step a (Submit r))) = timers a
            @ (if truthy (field result ''show_solution_button'') then [HandleMasteryFailed] else [])
            @ (if field result ''response_type'' = Some (JStr ''correct_final'')
               then [HandleMasteryCorrectAnswer] else []))
     \<and> celebrationType (run_callback g HandleMasteryFailed) = mastery_failed
     \<and> showCelebrationModal (run_callback g HandleMasteryFailed)
     \<and> celebrationType (run_callback g HandleMasteryCorrectAnswer) = mastery_passed
     \<and> showCelebrationModal (run_callback g HandleMasteryCorrectAnswer)
     \<and> pg (fst (step a (ShowSolution r'))) = pg a
     \<and> timers (fst (step a (ShowSolution r'))) = timers a"
  using assms step_Submit_guarded [of a r] step_ShowSolution_page [of a r']
  by (simp add: callbacks_of_page handleMasteryFailed_def handleMasteryCorrectAnswer_def
      del: step.simps)

theorem mastery_classification_witness:
  "isMasteryCheck (pg mastery_started) \<and> trim (input (ch mastery_started)) \<noteq> []
   \<and> \<not> isLoading (ch mastery_started)
   \<and> evaluated (Response True (Some correct_evaluation)) = Some correct_evaluation
   \<and> timers (fst (step mastery_started (Submit (Response True (Some correct_evaluation)))))
       = [HandleMasteryCorrectAnswer]"
proof -
  have a: "isMasteryCheck (pg mastery_started)" by (simp add: mastery_started_eq)
  have b: "trim (input (ch mastery_started)) \<noteq> []" by (simp add: mastery_started_eq)
  have c: "\<not> isLoading (ch mastery_started)" by (simp add: mastery_started_eq)
  have d: "evaluated (Response True (Some correct_evaluation)) = Some correct_evaluation"
    by (simp add: correct_evaluation_def)
  have e: "field correct_evaluation ''response_type'' = Some (JStr ''correct_final'')"
      "\<not> truthy (field correct_evaluation ''show_solution_button'')"
      "timers mastery_started = []"
    by (simp_all add: correct_evaluation_def mastery_started_eq)
  from mastery_classification [OF a b c, of "Response True (Some correct_evaluation)"
      correct_evaluation page_init FetchRejected] d e
  have "timers (fst (step mastery_started (Submit (Response True (Some correct_evaluation)))))
       = [HandleMasteryCorrectAnswer]"
    by simp
  with a b c d show ?thesis by blast
qed

text \<open>
  The claim's last part fails: in the third sample run the mastery check is
  classified as failed when the offer opens, and the learner has not asked
  for the solution.
\<close>

theorem mastery_failed_on_offer_counterexample:
  "isMasteryCheck (pg mastery_offer_opened)
   \<and> showCelebrationModal (pg mastery_offer_opened)
   \<and> celebrationType (pg mastery_offer_opened) = mastery_failed
   \<and> showSolutionButton (ch mastery_offer_opened)
   \<and> map msg_role (messages (ch mastery_offer_opened)) = [Student, Tutor, Student, Tutor]"
  by (simp add: mastery_offer_opened_eq)

text \<open>
  C4, as the code has it. When the generation of the mastery problem fails
  (the request is rejected, the reply is not \<^verbatim>\<open>ok\<close>, its body is not JSON
  or \<^verbatim>\<open>null\<close>, or it holds no problem), the page goes back to the problem
  picker: the current problem is cleared and the chat is discarded, the
  mastery flag and the original problem are as they were, so no mastery
  attempt is started, and no modal or message shows an error. The handler
  sends nothing but the generation request; it writes no final status.
\<close>

theorem generation_failure_resets:
  assumes "\<not> (\<exists>masteryProblem rest.
              r = Response True (Some (ProblemsBody (Some (masteryProblem # rest)))))"
  shows "currentProblem (fst (handleStartMasteryCheck g r)) = JNull
     \<and> isMasteryCheck (fst (handleStartMasteryCheck g r)) = isMasteryCheck g
     \<and> originalProblem (fst (handleStartMasteryCheck g r)) = originalProblem g
     \<and> \<not> showMasteryCheckModal (fst (handleStartMasteryCheck g r))
     \<and> \<not> isGeneratingMastery (fst (handleStartMasteryCheck g r))
     \<and> showCelebrationModal (fst (handleStartMasteryCheck g r)) = showCelebrationModal g
     \<and> celebrationType (fst (handleStartMasteryCheck g r)) = celebrationType g
     \<and> (\<forall>st. UpdateProblemAttempt st \<notin> set (snd (handleStartMasteryCheck g r)))
     \<and> (\<forall>q. PostEvaluate q \<notin> set (snd (handleStartMasteryCheck g r)))
     \<and> fst (step a (StartMasteryCheck r))
        = \<lparr>pg = start_failure (pg a), ch = chat_init, timers = timers a\<rparr>"
proof -
  note f = handleStartMasteryCheck_failure [OF assms]
  have eff: "(\<forall>st. UpdateProblemAttempt st \<notin> set (snd (handleStartMasteryCheck g r)))
     \<and> (\<forall>q. PostEvaluate q \<notin> set (snd (handleStartMasteryCheck g r)))"
    using f [of g] by auto
  have "fst (step a (StartMasteryCheck r)) = mounted a (fst (handleStartMasteryCheck (pg a) r))"
    by (simp add: case_prod_unfold)
  then have st: "fst (step a (StartMasteryCheck r))
      = \<lparr>pg = start_failure (pg a), ch = chat_init, timers = timers a\<rparr>"
    using f [of "pg a"] by (simp add: mounted_def start_failure_def)
  show ?thesis using eff st by (simp add: f start_failure_def)
qed

theorem generation_failure_resets_witness:
  "showMasteryCheckModal (pg original_solved) \<and> \<not> isMasteryCheck (pg original_solved)
   \<and> fst (step original_solved (StartMasteryCheck (Response False (Some (ProblemsBody None)))))
      = \<lparr>pg = \<lparr>currentProblem = JNull, originalProblem = JNull, isMasteryCheck = False,
             showMasteryCheckModal = False, showCelebrationModal = False,
             celebrationType = mastery_passed, isGeneratingMastery = False\<rparr>,
         ch = chat_init, timers = []\<rparr>"
  using generation_failure_resets [of "Response False (Some (ProblemsBody None))"
      "pg original_solved" original_solved]
  by (simp add: original_solved_eq start_failure_def)

text \<open>
  The claim's first part fails: after the first sample run the generation
  request is rejected; the only effect is that request, no attempt is
  finalized as mastered, and the state is the one that skipping the mastery
  check gives.
\<close>

theorem generation_failure_not_finalized_counterexample:
  "snd (step original_solved (StartMasteryCheck FetchRejected))
     = [PostGenerateSimilar (Some (JStr ''problem_00001'')) 1 ''same'']
   \<and> UpdateProblemAttempt mastered \<notin> set (snd (step original_solved (StartMasteryCheck FetchRejected)))
   \<and> fst (step original_solved (StartMasteryCheck FetchRejected))
      = fst (step original_solved SkipMasteryCheck)"
  by (simp add: original_solved_eq handleStartMasteryCheck_def start_failure_def mounted_def
      handleSkipMasteryCheck_def sample_problem_def)

text \<open>
  C6 does not hold of the code. In the last sample run, which the page can
  reach, the current attempt is a mastery check on the generated problem and
  the mastery offer is open: the second correct answer to the original
  problem left a timer behind that fired after the mastery check had started.
  Accepting the offer there invokes the generator for the mastery problem and
  makes the mastery problem the original of a further mastery check.
\<close>

theorem nested_mastery_offer:
  "reachable nested_offer
   \<and> isMasteryCheck (pg nested_offer)
   \<and> currentProblem (pg nested_offer) = generated_problem
   \<and> showMasteryCheckModal (pg nested_offer)
   \<and> enabled nested_offer
        (StartMasteryCheck (Response True (Some (ProblemsBody (Some [sample_problem])))))
   \<and> snd (step nested_offer
        (StartMasteryCheck (Response True (Some (ProblemsBody (Some [sample_problem]))))))
      = [PostGenerateSimilar (Some (JStr ''problem_00002'')) 1 ''same'']
   \<and> originalProblem (pg (fst (step nested_offer
        (StartMasteryCheck (Response True (Some (ProblemsBody (Some [sample_problem]))))))))
      = generated_problem"
  by (simp add: reachable_nested_offer)
     (simp add: nested_offer_eq page_handlers mounted_def generated_problem_def)

end
